theory Spec2Isabelle
  imports Complex_Main "HOL-Library.Word"
begin

section \<open>JavaScript values used by the builder\<close>

text \<open>
  A JavaScript number that the builder reads as a fee is either an integer or \<open>NaN\<close>
  (what \<open>parseInt\<close> yields when it finds no digit). Numbers are exact here: the rounding
  of IEEE doubles is outside this development.
\<close>

datatype number = NaN | Number int

text \<open>\<open>Math.max(a, b)\<close>: \<open>NaN\<close> as soon as one argument is \<open>NaN\<close>.\<close>

fun Math_max :: "number \<Rightarrow> number \<Rightarrow> number" where
  "Math_max (Number a) (Number b) = Number (max a b)"
| "Math_max _ _ = NaN"

text \<open>\<open>Math.ceil(consumedUnits * tolerance)\<close> on exact rationals.\<close>

definition Math_ceil_mul :: "int \<Rightarrow> rat \<Rightarrow> int" where
  "Math_ceil_mul consumedUnits tolerance = \<lceil>of_int consumedUnits * tolerance\<rceil>"

subsection \<open>Numbers as text\<close>

definition digit_char :: "nat \<Rightarrow> char" where
  "digit_char d = ''0123456789'' ! d"

fun decimal :: "nat \<Rightarrow> string" where
  "decimal n = (if n < 10 then [digit_char n] else decimal (n div 10) @ [digit_char (n mod 10)])"

declare decimal.simps [simp del]

text \<open>The text of an integer inside a template literal, \<open>`${n}`\<close>.\<close>

definition ToString :: "int \<Rightarrow> string" where
  "ToString i = (if i < 0 then CHR ''-'' # decimal (nat (- i)) else decimal (nat i))"

subsection \<open>parseInt\<close>

text \<open>
  \<open>parseInt(text, radix)\<close> as ECMAScript defines it: leading white space is dropped, one
  sign is read, with no radix given a prefix \<open>0x\<close> or \<open>0X\<close> selects radix 16, then the
  longest prefix of digits of the radix is the value, and no digit at all gives \<open>NaN\<close>.
  \<open>build.ts\<close> passes radix 10, \<open>build.js\<close> passes none.
\<close>

definition is_white_space :: "char \<Rightarrow> bool" where
  "is_white_space c = (of_char c \<in> {9::nat, 10, 11, 12, 13, 32})"

definition digit_of :: "char \<Rightarrow> nat option" where
  "digit_of c =
     (let k = (of_char c :: nat)
      in if 48 \<le> k \<and> k \<le> 57 then Some (k - 48)
         else if 97 \<le> k \<and> k \<le> 122 then Some (k - 87)
         else if 65 \<le> k \<and> k \<le> 90 then Some (k - 55)
         else None)"

definition is_digit :: "nat \<Rightarrow> char \<Rightarrow> bool" where
  "is_digit R c = (case digit_of c of None \<Rightarrow> False | Some d \<Rightarrow> d < R)"

definition digit_value :: "char \<Rightarrow> int" where
  "digit_value c = (case digit_of c of None \<Rightarrow> 0 | Some d \<Rightarrow> int d)"

definition digits_value :: "nat \<Rightarrow> string \<Rightarrow> int" where
  "digits_value R z = foldl (\<lambda>acc c. int R * acc + digit_value c) 0 z"

definition strip_sign :: "string \<Rightarrow> int \<times> string" where
  "strip_sign t =
     (case t of
        [] \<Rightarrow> (1, [])
      | c # r \<Rightarrow> if c = CHR ''-'' then (- 1, r) else if c = CHR ''+'' then (1, r) else (1, t))"

definition strip_prefix :: "nat option \<Rightarrow> string \<Rightarrow> nat \<times> string" where
  "strip_prefix radix u =
     (case radix of
        Some R \<Rightarrow> (R, u)
      | None \<Rightarrow>
          (case u of
             a # b # r \<Rightarrow>
               if a = CHR ''0'' \<and> (b = CHR ''x'' \<or> b = CHR ''X'') then (16, r) else (10, u)
           | _ \<Rightarrow> (10, u)))"

definition parseInt :: "string \<Rightarrow> nat option \<Rightarrow> number" where
  "parseInt inputString radix =
     (let (sign, u) = strip_sign (dropWhile is_white_space inputString);
          (R, v) = strip_prefix radix u;
          z = takeWhile (is_digit R) v
      in if z = [] then NaN else Number (sign * digits_value R z))"

text \<open>
  The argument of \<open>parseInt\<close> is first turned into text; a missing property
  (\<open>undefined\<close>) becomes the text \<open>undefined\<close>. A property of the oracle's answer is
  modelled by its text, \<open>None\<close> when the answer does not have it.
\<close>

definition text_of_property :: "string option \<Rightarrow> string" where
  "text_of_property p = (case p of None \<Rightarrow> ''undefined'' | Some s \<Rightarrow> s)"

section \<open>Instructions, transactions and the services the builder calls\<close>

text \<open>
  What \<open>ComputeLimit\<close> returns: the optimised unit count, or the object
  \<open>{message, logs}\<close> of a failed simulation. The \<open>logs\<close> of a simulation may be absent
  (\<open>null\<close>), which is \<open>None\<close>.
\<close>

datatype compute_limit = Units int | SimulationError string "string list option"

text \<open>
  An instruction is opaque to the builder, except for the two directives it creates with
  \<open>ComputeBudgetProgram.setComputeUnitLimit({units})\<close> and
  \<open>ComputeBudgetProgram.setComputeUnitPrice({microLamports})\<close>. Each directive carries
  the operand it was handed; the checks the library makes on an operand are outside this
  development.
\<close>

datatype instruction =
    SetComputeUnitLimit compute_limit
  | SetComputeUnitPrice number
  | Instruction nat

text \<open>
  A \<open>VersionedTransaction\<close> over a compiled v0 message: the payer, the checkpoint, the
  instruction sequence, the lookup tables, and the signers once \<open>sign\<close> ran.
\<close>

record transaction =
  payerKey :: string
  recentBlockhash :: string
  compiled :: "instruction list"
  lookupTables :: "nat list"
  signatures :: "string list option"

definition VersionedTransaction :: "string \<Rightarrow> string \<Rightarrow> instruction list \<Rightarrow> nat list \<Rightarrow> transaction" where
  "VersionedTransaction payer blockhash ixs tables =
     \<lparr>payerKey = payer, recentBlockhash = blockhash, compiled = ixs,
      lookupTables = tables, signatures = None\<rparr>"

datatype exn = Error string | TypeError | SyntaxError | Rejected string

text \<open>The value of a simulation: \<open>{err, logs, unitsConsumed}\<close>.\<close>

record simulation =
  err :: "string option"
  logs :: "string list option"
  unitsConsumed :: int

text \<open>
  What the fee oracle's HTTP exchange can come to: \<open>fetch\<close> rejects, the body is not
  JSON, the JSON has no \<open>result\<close> object, or it has one whose \<open>priorityFeeEstimate\<close>
  is given by its text (\<open>None\<close> when the property is missing).
\<close>

datatype oracle_reply = FetchRejects | BodyNotJson | NoResult | Result "string option"

type_synonym bytes = "8 word list"

text \<open>
  The collaborators, as functions of what they are sent: the public-key check of
  \<open>new PublicKey\<close>, the three remote calls, and the library's wire format
  (\<open>transaction.serialize()\<close>).
\<close>

record env =
  validKey :: "string \<Rightarrow> bool"
  getLatestBlockhash :: "string \<Rightarrow> exn + string"
  simulateTransaction :: "string \<Rightarrow> transaction \<Rightarrow> exn + simulation"
  getPriorityFeeEstimate :: "string \<Rightarrow> transaction \<Rightarrow> string \<Rightarrow> oracle_reply"
  serialized :: "transaction \<Rightarrow> bytes"

text \<open>\<open>Buffer.toString("base64")\<close>: three bytes give four characters, padded with \<open>=\<close>.\<close>

definition base64_char :: "nat \<Rightarrow> char" where
  "base64_char i =
     ''ABCDEFGHIJKLMNOPQRSTUVWXYZabcdefghijklmnopqrstuvwxyz0123456789+/'' ! i"

fun base64_of :: "nat list \<Rightarrow> string" where
  "base64_of (a # b # c # r) =
     base64_char (a div 4) # base64_char ((a mod 4) * 16 + b div 16)
       # base64_char ((b mod 16) * 4 + c div 64) # base64_char (c mod 64) # base64_of r"
| "base64_of [a, b] =
     [base64_char (a div 4), base64_char ((a mod 4) * 16 + b div 16),
      base64_char ((b mod 16) * 4), CHR ''='']"
| "base64_of [a] = [base64_char (a div 4), base64_char ((a mod 4) * 16), CHR ''='', CHR ''='']"
| "base64_of [] = []"

definition base64 :: "bytes \<Rightarrow> string" where
  "base64 buf = base64_of (map unat buf)"

text \<open>The remote calls a run makes, in order, each with what it sent.\<close>

datatype rpc_call =
    LatestBlockhashCall string
  | SimulateCall string transaction
  | FeeEstimateCall string transaction string

text \<open>The options object of \<open>tx\<close>; an optional property left out is \<open>None\<close>.\<close>

record TxOptions =
  rpc :: string
  account :: string
  instructions :: "instruction list option"
  signers :: "string list option"
  priority :: "string option"
  tolerance :: "rat option"
  serialize :: "bool option"
  encode :: "bool option"
  table :: "nat list option"
  compute :: "bool option"
  fees :: "bool option"

definition or_default :: "'a \<Rightarrow> 'a option \<Rightarrow> 'a" where
  "or_default d v = (case v of None \<Rightarrow> d | Some x \<Rightarrow> x)"

text \<open>
  What \<open>tx\<close> hands back: the transaction object, its bytes, or the base64 text of its
  bytes.
\<close>

datatype payload = Object transaction | Bytes bytes | Text string

text \<open>
  The value \<open>tx\<close> resolves to: \<open>{message}\<close>, \<open>{message, logs}\<close>,
  \<open>{message, transaction}\<close>, or (in \<open>build.js\<close>) a bare byte array or string.
\<close>

datatype tx_result =
    Message string
  | Failure string "string list option"
  | Built string payload
  | Bare payload

text \<open>
  A run of \<open>tx\<close>: what it resolved to (\<open>Inl\<close> when it threw), the caller's options
  object as the run left it, and the remote calls it made.
\<close>

record run =
  returned :: "exn + tx_result"
  options_after :: TxOptions
  calls :: "rpc_call list"

datatype 'a step = Throw exn | Return tx_result | Continue 'a

section \<open>build.ts\<close>

subsection \<open>ComputeLimit\<close>

definition ComputeLimit ::
  "env \<Rightarrow> string \<Rightarrow> string \<Rightarrow> instruction list \<Rightarrow> rat \<Rightarrow> string \<Rightarrow> nat list
     \<Rightarrow> (exn + compute_limit) \<times> rpc_call list" where
  "ComputeLimit e cluster payer ixs tol blockhash tables =
     (let computeUnitLimitInstruction = SetComputeUnitLimit (Units 1400000);
          txInstructions = computeUnitLimitInstruction # ixs;
          transaction = VersionedTransaction payer blockhash txInstructions tables
      in (case simulateTransaction e cluster transaction of
            Inl x \<Rightarrow> Inl x
          | Inr simulationResult \<Rightarrow>
              if err simulationResult \<noteq> None
              then Inr (SimulationError ''Error during simulation'' (logs simulationResult))
              else Inr (Units (Math_ceil_mul (unitsConsumed simulationResult) tol)),
          [SimulateCall cluster transaction]))"

subsection \<open>FeeEstimate\<close>

definition FeeEstimate ::
  "env \<Rightarrow> string \<Rightarrow> string \<Rightarrow> string \<Rightarrow> instruction list \<Rightarrow> string \<Rightarrow> nat list
     \<Rightarrow> (exn + number) \<times> rpc_call list" where
  "FeeEstimate e cluster payer priorityLevel ixs blockhash tables =
     (let transaction = VersionedTransaction payer blockhash ixs tables;
          url = cluster @ ''/''
      in (case getPriorityFeeEstimate e url transaction priorityLevel of
            FetchRejects \<Rightarrow> Inl (Error ''Failed to estimate fee'')
          | BodyNotJson \<Rightarrow> Inl (Error ''Failed to estimate fee'')
          | NoResult \<Rightarrow> Inl (Error ''Failed to estimate fee'')
          | Result priorityFeeEstimate \<Rightarrow>
              Inr (Math_max (parseInt (text_of_property priorityFeeEstimate) (Some 10))
                     (Number 10000)),
          [FeeEstimateCall url transaction priorityLevel]))"

subsection \<open>tx\<close>

text \<open>Lines 179 to 185: the compute step on the local copy of the instructions.\<close>

definition tx_compute ::
  "env \<Rightarrow> string \<Rightarrow> string \<Rightarrow> rat \<Rightarrow> string \<Rightarrow> nat list \<Rightarrow> instruction list
     \<Rightarrow> instruction list step \<times> rpc_call list" where
  "tx_compute e cluster payer tol blockhash tables txInstructions =
     (case ComputeLimit e cluster payer txInstructions tol blockhash tables of
        (Inl x, cs) \<Rightarrow> (Throw x, cs)
      | (Inr computeLimit, cs) \<Rightarrow>
          (case computeLimit of
             SimulationError m (Some ls) \<Rightarrow> (Return (Failure m (Some ls)), cs)
           | _ \<Rightarrow> (Continue (SetComputeUnitLimit computeLimit # txInstructions), cs)))"

text \<open>Lines 187 to 190: the fee step.\<close>

definition tx_fees ::
  "env \<Rightarrow> string \<Rightarrow> string \<Rightarrow> string \<Rightarrow> string \<Rightarrow> nat list \<Rightarrow> instruction list
     \<Rightarrow> instruction list step \<times> rpc_call list" where
  "tx_fees e cluster payer prio blockhash tables txInstructions =
     (case FeeEstimate e cluster payer prio txInstructions blockhash tables of
        (Inl x, cs) \<Rightarrow> (Throw x, cs)
      | (Inr feeEstimate, cs) \<Rightarrow> (Continue (SetComputeUnitPrice feeEstimate # txInstructions), cs))"

text \<open>
  \<open>Buffer.from(value)\<close>: the bytes of a byte array; a \<open>TypeError\<close> for an object that
  is neither a string, a buffer nor array-like, as a transaction object is.
\<close>

fun Buffer_from :: "payload \<Rightarrow> exn + bytes" where
  "Buffer_from (Bytes b) = Inr b"
| "Buffer_from (Object t) = Inl TypeError"
| "Buffer_from (Text s) = Inr (map of_char s)"

definition sign :: "string list option \<Rightarrow> transaction \<Rightarrow> transaction" where
  "sign sgs t = (case sgs of None \<Rightarrow> t | Some ss \<Rightarrow> t\<lparr>signatures := Some ss\<rparr>)"

text \<open>Lines 192 to 217: compile, sign, serialise, encode.\<close>

definition tx_output ::
  "env \<Rightarrow> string \<Rightarrow> string \<Rightarrow> nat list \<Rightarrow> string list option \<Rightarrow> bool \<Rightarrow> bool
     \<Rightarrow> instruction list \<Rightarrow> exn + tx_result" where
  "tx_output e payer blockhash tables sgs ser enc txInstructions =
     (let transaction = sign sgs (VersionedTransaction payer blockhash txInstructions tables);
          resultTransaction = (if ser then Bytes (serialized e transaction) else Object transaction);
          message = (if ser \<or> enc then ''Success'' else ''Transaction built successfully'')
      in if enc
         then (case Buffer_from resultTransaction of
                 Inl x \<Rightarrow> Inl x
               | Inr buf \<Rightarrow> Inr (Built message (Text (base64 buf))))
         else Inr (Built message resultTransaction))"

text \<open>
  Lines 154 to 190: the defaults, the check of the required parameters, the checkpoint and
  the two optimisation steps, on \<open>txInstructions\<close>, a copy of the caller's array. It
  ends in a throw, in an early return, or with the checkpoint and the final instructions.
\<close>

definition tx_prepare :: "env \<Rightarrow> TxOptions \<Rightarrow> (string \<times> instruction list) step \<times> rpc_call list" where
  "tx_prepare e options =
     (let prio = or_default ''Medium'' (priority options);
          tol = or_default (11 / 10) (tolerance options);
          tables = or_default [] (table options);
          comp = or_default True (compute options);
          fee = or_default True (fees options)
      in case instructions options of
           None \<Rightarrow> (Return (Message ''Missing required parameters''), [])
         | Some ixs \<Rightarrow>
             if rpc options = [] \<or> account options = []
             then (Return (Message ''Missing required parameters''), [])
             else if \<not> validKey e (account options)
             then (Throw (Error ''Invalid public key input''), [])
             else
               (case getLatestBlockhash e (rpc options) of
                  Inl x \<Rightarrow> (Throw x, [LatestBlockhashCall (rpc options)])
                | Inr blockhash \<Rightarrow>
                    (let c0 = [LatestBlockhashCall (rpc options)];
                         (s1, c1) =
                           (if comp
                            then tx_compute e (rpc options) (account options) tol blockhash tables ixs
                            else (Continue ixs, []))
                     in case s1 of
                          Throw x \<Rightarrow> (Throw x, c0 @ c1)
                        | Return r \<Rightarrow> (Return r, c0 @ c1)
                        | Continue ixs1 \<Rightarrow>
                            (let (s2, c2) =
                                   (if fee
                                    then tx_fees e (rpc options) (account options) prio blockhash
                                           tables ixs1
                                    else (Continue ixs1, []))
                             in case s2 of
                                  Throw x \<Rightarrow> (Throw x, c0 @ c1 @ c2)
                                | Return r \<Rightarrow> (Return r, c0 @ c1 @ c2)
                                | Continue ixs2 \<Rightarrow> (Continue (blockhash, ixs2), c0 @ c1 @ c2)))))"

text \<open>The whole of \<open>tx\<close>. The caller's options object is never written to.\<close>

definition tx :: "env \<Rightarrow> TxOptions \<Rightarrow> run" where
  "tx e options =
     (case tx_prepare e options of
        (Throw x, cs) \<Rightarrow> \<lparr>returned = Inl x, options_after = options, calls = cs\<rparr>
      | (Return r, cs) \<Rightarrow> \<lparr>returned = Inr r, options_after = options, calls = cs\<rparr>
      | (Continue (blockhash, txInstructions), cs) \<Rightarrow>
          \<lparr>returned = tx_output e (account options) blockhash (or_default [] (table options))
                        (signers options) (or_default False (serialize options))
                        (or_default False (encode options)) txInstructions,
           options_after = options, calls = cs\<rparr>)"

subsection \<open>status\<close>

text \<open>
  One entry of \<open>getSignatureStatuses\<close>: its \<open>confirmationStatus\<close> and its \<open>err\<close>.
  The answer to a query is that entry (\<open>None\<close> for a signature the node does not know),
  unless the query itself fails.
\<close>

datatype signature_status =
  SignatureStatus (confirmationStatus: "string option") (execution_err: "string option")

datatype status_reply = QueryFails | Reply "signature_status option"

definition finalized :: "signature_status option \<Rightarrow> bool" where
  "finalized v = (case v of None \<Rightarrow> False | Some st \<Rightarrow> confirmationStatus st = Some ''finalized'')"

definition has_err :: "signature_status option \<Rightarrow> bool" where
  "has_err v = (case v of None \<Rightarrow> False | Some st \<Rightarrow> execution_err st \<noteq> None)"

text \<open>
  The poller's state: the counter \<open>start\<close>, what the promise was resolved with (only the
  first \<open>resolve\<close> counts), whether the interval timer is still set, and how many status
  queries were sent.
\<close>

record poll =
  start :: int
  resolved :: "string option"
  ticking :: bool
  queries :: nat

definition resolve :: "string \<Rightarrow> poll \<Rightarrow> poll" where
  "resolve v p = (case resolved p of None \<Rightarrow> p\<lparr>resolved := Some v\<rparr> | Some _ \<Rightarrow> p)"

definition clearInterval :: "poll \<Rightarrow> poll" where
  "clearInterval p = p\<lparr>ticking := False\<rparr>"

definition max_wait :: "int \<Rightarrow> int \<Rightarrow> string" where
  "max_wait mx intv = ToString (mx * intv) @ '' seconds max wait reached''"

text \<open>
  The callback of \<open>setInterval\<close>, lines 48 to 72. The \<open>n\<close>-th query sent is answered by
  \<open>q n\<close>, and a callback has finished when the timer fires next.
\<close>

definition status_tick :: "(nat \<Rightarrow> status_reply) \<Rightarrow> int \<Rightarrow> int \<Rightarrow> poll \<Rightarrow> poll" where
  "status_tick q mx intv p =
     (let p0 = p\<lparr>queries := Suc (queries p)\<rparr>
      in case q (queries p) of
           QueryFails \<Rightarrow> clearInterval (resolve ''Error checking status'' p0)
         | Reply v \<Rightarrow>
             (let p1 = (if finalized v
                        then (if has_err v
                              then clearInterval (resolve ''Program error!'' p0)
                              else clearInterval (resolve ''Finalized'' p0))
                        else p0);
                  p2 = p1\<lparr>start := start p1 + 1\<rparr>
              in if start p2 > mx then clearInterval (resolve (max_wait mx intv) p2) else p2))"

text \<open>The timer: it runs the callback once per period for as long as it is set.\<close>

fun ticks :: "(poll \<Rightarrow> poll) \<Rightarrow> nat \<Rightarrow> poll \<Rightarrow> poll" where
  "ticks f 0 p = p"
| "ticks f (Suc n) p = ticks f n (if ticking p then f p else p)"

definition poll_start :: poll where
  "poll_start = \<lparr>start = 1, resolved = None, ticking = True, queries = 0\<rparr>"

text \<open>\<open>status(cluster, sig, max, int)\<close> as seen after \<open>n\<close> periods of the timer.\<close>

definition status :: "(nat \<Rightarrow> status_reply) \<Rightarrow> int \<Rightarrow> int \<Rightarrow> nat \<Rightarrow> poll" where
  "status q mx intv n = ticks (status_tick q mx intv) n poll_start"

section \<open>build.js\<close>

text \<open>
  The JavaScript module of the repository. \<open>ComputeLimit\<close> differs in the message
  only; the default tolerance is the text \<open>1.1\<close>, which the product turns into the number.
\<close>

definition ComputeLimit_js ::
  "env \<Rightarrow> string \<Rightarrow> string \<Rightarrow> instruction list \<Rightarrow> rat \<Rightarrow> string \<Rightarrow> nat list
     \<Rightarrow> (exn + compute_limit) \<times> rpc_call list" where
  "ComputeLimit_js e cluster optiPayer optiIx optiTolerance blockhash optiTables =
     (let optiSimLimit = SetComputeUnitLimit (Units 1400000);
          ixs = optiSimLimit # optiIx;
          optiTx = VersionedTransaction optiPayer blockhash ixs optiTables
      in (case simulateTransaction e cluster optiTx of
            Inl x \<Rightarrow> Inl x
          | Inr optiCuRes \<Rightarrow>
              if err optiCuRes \<noteq> None
              then Inr (SimulationError ''error during simulation'' (logs optiCuRes))
              else Inr (Units (Math_ceil_mul (unitsConsumed optiCuRes) optiTolerance)),
          [SimulateCall cluster optiTx]))"

text \<open>No \<open>try\<close> here: what the exchange throws is what the caller gets.\<close>

definition FeeEstimate_js ::
  "env \<Rightarrow> string \<Rightarrow> string \<Rightarrow> string \<Rightarrow> instruction list \<Rightarrow> string \<Rightarrow> nat list
     \<Rightarrow> (exn + number) \<times> rpc_call list" where
  "FeeEstimate_js e cluster payer priorityLevel ixs blockhash tables =
     (let transaction = VersionedTransaction payer blockhash ixs tables
      in (case getPriorityFeeEstimate e cluster transaction priorityLevel of
            FetchRejects \<Rightarrow> Inl (Rejected ''fetch failed'')
          | BodyNotJson \<Rightarrow> Inl SyntaxError
          | NoResult \<Rightarrow> Inl TypeError
          | Result priorityFeeEstimate \<Rightarrow>
              Inr (Math_max (parseInt (text_of_property priorityFeeEstimate) None)
                     (Number 10000)),
          [FeeEstimateCall cluster transaction priorityLevel]))"

definition tx_output_js ::
  "env \<Rightarrow> string \<Rightarrow> string \<Rightarrow> nat list \<Rightarrow> string list option \<Rightarrow> bool \<Rightarrow> bool
     \<Rightarrow> instruction list \<Rightarrow> tx_result" where
  "tx_output_js e wallet blockhash tables sgs ser enc ixs =
     (let t = sign sgs (VersionedTransaction wallet blockhash ixs tables)
      in if ser
         then (let serializedTx = serialized e t
               in if enc then Bare (Text (base64 serializedTx)) else Bare (Bytes serializedTx))
         else Built ''success'' (Object t))"

text \<open>The tier \<open>Extreme\<close> is sent as \<open>VeryHigh\<close>.\<close>

definition priority_js :: "string \<Rightarrow> string" where
  "priority_js p = (if p = ''Extreme'' then ''VeryHigh'' else p)"

text \<open>
  \<open>tx\<close> of \<open>build.js\<close>, up to the second \<open>unshift\<close>. It works on the caller's own
  array, so it also gives what that array holds when it ends. The lookup tables are read
  from the property \<open>tables\<close> here, modelled by the same field.
\<close>

definition tx_prepare_js ::
  "env \<Rightarrow> TxOptions
     \<Rightarrow> (string \<times> instruction list) step \<times> instruction list option \<times> rpc_call list" where
  "tx_prepare_js e data =
     (let prio0 = or_default ''Medium'' (priority data);
          tol = or_default (11 / 10) (tolerance data);
          tables = or_default [] (table data);
          comp = or_default True (compute data);
          fee = or_default True (fees data)
      in if rpc data = [] then (Return (Message ''missing rpc''), instructions data, [])
         else if account data = []
         then (Return (Message ''missing account''), instructions data, [])
         else
           (case instructions data of
              None \<Rightarrow> (Return (Message ''missing instructions''), None, [])
            | Some ixs \<Rightarrow>
                if \<not> validKey e (account data)
                then (Throw (Error ''Invalid public key input''), Some ixs, [])
                else
                  (case getLatestBlockhash e (rpc data) of
                     Inl x \<Rightarrow> (Throw x, Some ixs, [LatestBlockhashCall (rpc data)])
                   | Inr blockhash \<Rightarrow>
                       (let c0 = [LatestBlockhashCall (rpc data)];
                            prio = priority_js prio0;
                            (s1, c1) =
                              (if comp
                               then (case ComputeLimit_js e (rpc data) (account data) ixs tol
                                            blockhash tables of
                                       (Inl x, cs) \<Rightarrow> (Throw x, cs)
                                     | (Inr computeLimit, cs) \<Rightarrow>
                                         (case computeLimit of
                                            SimulationError m (Some ls) \<Rightarrow>
                                              (Return (Failure ''error when simulating the transaction''
                                                         (Some ls)), cs)
                                          | _ \<Rightarrow> (Continue (SetComputeUnitLimit computeLimit # ixs), cs)))
                               else (Continue ixs, []))
                        in case s1 of
                             Throw x \<Rightarrow> (Throw x, Some ixs, c0 @ c1)
                           | Return r \<Rightarrow> (Return r, Some ixs, c0 @ c1)
                           | Continue ixs1 \<Rightarrow>
                               (let (s2, c2) =
                                      (if fee
                                       then (case FeeEstimate_js e (rpc data) (account data) prio
                                                    ixs1 blockhash tables of
                                               (Inl x, cs) \<Rightarrow> (Throw x, cs)
                                             | (Inr priorityFee, cs) \<Rightarrow>
                                                 (Continue (SetComputeUnitPrice priorityFee # ixs1), cs))
                                       else (Continue ixs1, []))
                                in case s2 of
                                     Throw x \<Rightarrow> (Throw x, Some ixs1, c0 @ c1 @ c2)
                                   | Return r \<Rightarrow> (Return r, Some ixs1, c0 @ c1 @ c2)
                                   | Continue ixs2 \<Rightarrow>
                                       (Continue (blockhash, ixs2), Some ixs2, c0 @ c1 @ c2))))))"

definition tx_js :: "env \<Rightarrow> TxOptions \<Rightarrow> run" where
  "tx_js e data =
     (case tx_prepare_js e data of
        (Throw x, arr, cs) \<Rightarrow>
          \<lparr>returned = Inl x, options_after = data\<lparr>instructions := arr\<rparr>, calls = cs\<rparr>
      | (Return r, arr, cs) \<Rightarrow>
          \<lparr>returned = Inr r, options_after = data\<lparr>instructions := arr\<rparr>, calls = cs\<rparr>
      | (Continue (blockhash, ixs), arr, cs) \<Rightarrow>
          \<lparr>returned = Inr (tx_output_js e (account data) blockhash (or_default [] (table data))
                             (signers data) (or_default False (serialize data))
                             (or_default False (encode data)) ixs),
           options_after = data\<lparr>instructions := arr\<rparr>, calls = cs\<rparr>)"

text \<open>
  The callback of \<open>status\<close> in \<open>build.js\<close>, which has no \<open>try\<close>: when the query
  throws, the callback ends there, with nothing resolved and the timer still set.
\<close>

definition status_tick_js :: "(nat \<Rightarrow> status_reply) \<Rightarrow> int \<Rightarrow> int \<Rightarrow> poll \<Rightarrow> poll" where
  "status_tick_js q mx intv p =
     (let p0 = p\<lparr>queries := Suc (queries p)\<rparr>
      in case q (queries p) of
           QueryFails \<Rightarrow> p0
         | Reply v \<Rightarrow>
             (let p1 = (if finalized v
                        then (if has_err v
                              then clearInterval (resolve ''program error!'' p0)
                              else clearInterval (resolve ''finalized'' p0))
                        else if start p0 \<ge> mx
                        then clearInterval (resolve (max_wait mx intv) p0)
                        else p0)
              in p1\<lparr>start := start p1 + 1\<rparr>))"

definition status_js :: "(nat \<Rightarrow> status_reply) \<Rightarrow> int \<Rightarrow> int \<Rightarrow> nat \<Rightarrow> poll" where
  "status_js q mx intv n = ticks (status_tick_js q mx intv) n poll_start"

section \<open>Reading a result, and inputs to run the builder on\<close>

text \<open>A run succeeded when it resolved to a transaction in one of its three forms.\<close>

fun payload_of :: "tx_result \<Rightarrow> payload option" where
  "payload_of (Built m p) = Some p"
| "payload_of (Bare p) = Some p"
| "payload_of _ = None"

definition succeeded :: "tx_result \<Rightarrow> bool" where
  "succeeded r = (payload_of r \<noteq> None)"

text \<open>
  The result \<open>r\<close> carries the transaction \<open>t\<close>: as the object, as its bytes, or as the
  base64 text of its bytes.
\<close>

definition carries :: "env \<Rightarrow> tx_result \<Rightarrow> transaction \<Rightarrow> bool" where
  "carries e r t =
     (case payload_of r of
        None \<Rightarrow> False
      | Some (Object t') \<Rightarrow> t' = t
      | Some (Bytes b) \<Rightarrow> b = serialized e t
      | Some (Text s) \<Rightarrow> s = base64 (serialized e t))"

text \<open>The two directives the builder creates, as opposed to a caller's instruction.\<close>

fun is_directive :: "instruction \<Rightarrow> bool" where
  "is_directive (SetComputeUnitLimit u) = True"
| "is_directive (SetComputeUnitPrice f) = True"
| "is_directive (Instruction i) = False"

text \<open>
  A network that answers every simulation with \<open>sim\<close> and every fee query with
  \<open>reply\<close>, at the checkpoint \<open>cp\<close>, with a three-byte stand-in for the wire format.
\<close>

definition demo_wire :: "transaction \<Rightarrow> bytes" where
  "demo_wire t =
     map of_nat [length (compiled t), length (payerKey t), length (recentBlockhash t)]"

definition demo_env :: "simulation \<Rightarrow> oracle_reply \<Rightarrow> env" where
  "demo_env sim reply =
     \<lparr>validKey = (\<lambda>k. True),
      getLatestBlockhash = (\<lambda>c. Inr ''cp''),
      simulateTransaction = (\<lambda>c t. Inr sim),
      getPriorityFeeEstimate = (\<lambda>u t p. reply),
      serialized = demo_wire\<rparr>"

definition sim_ok :: simulation where
  "sim_ok = \<lparr>err = None, logs = Some [''log A''], unitsConsumed = 5000\<rparr>"

definition sim_failed :: simulation where
  "sim_failed = \<lparr>err = Some ''InstructionError'', logs = Some [''log A'', ''log B''], unitsConsumed = 0\<rparr>"

definition sim_failed_without_logs :: simulation where
  "sim_failed_without_logs = \<lparr>err = Some ''AccountNotFound'', logs = None, unitsConsumed = 0\<rparr>"

text \<open>A request with one instruction and every optional property left out.\<close>

definition demo_options :: TxOptions where
  "demo_options =
     \<lparr>rpc = ''rpc'', account = ''payer'', instructions = Some [Instruction 7],
      signers = None, priority = None, tolerance = None, serialize = None, encode = None,
      table = None, compute = None, fees = None\<rparr>"

section \<open>The confirmation poller\<close>

lemma ticks_stopped: "\<not> ticking p \<Longrightarrow> ticks f n p = p"
  by (induction n) simp_all

lemma ticks_add: "ticks f (m + n) p = ticks f n (ticks f m p)"
  by (induction m arbitrary: p) simp_all

lemma ticks_Suc_end:
  "ticks f (Suc n) p = (if ticking (ticks f n p) then f (ticks f n p) else ticks f n p)"
  using ticks_add [of f n 1 p] by simp

lemma ticks_settled:
  assumes "\<not> ticking (ticks f m p)" and "m \<le> n"
  shows "ticks f n p = ticks f m p"
proof -
  from assms(2) obtain d where "n = m + d" using le_Suc_ex by blast
  with assms(1) show ?thesis by (simp add: ticks_add ticks_stopped)
qed

text \<open>
  While the answers are not final and the counter is below \<open>max\<close>, each period sends
  one query and leaves the promise open.
\<close>

lemma status_pending:
  assumes "\<And>i. i < k \<Longrightarrow> \<exists>v. q i = Reply v \<and> \<not> finalized v" and "int k < mx"
  shows "status q mx intv k = \<lparr>start = 1 + int k, resolved = None, ticking = True, queries = k\<rparr>"
  using assms
proof (induction k)
  case 0
  then show ?case by (simp add: status_def poll_start_def)
next
  case (Suc k)
  from Suc.prems(1) [of k] obtain v where v: "q k = Reply v" "\<not> finalized v" by auto
  have "status q mx intv k = \<lparr>start = 1 + int k, resolved = None, ticking = True, queries = k\<rparr>"
    using Suc by simp
  then show ?case
    using v Suc.prems(2) unfolding status_def ticks_Suc_end
    by (simp add: status_tick_def)
qed







text \<open>
  In \<open>build.ts\<close> a query that fails ends the polling: the promise resolves with
  \<open>Error checking status\<close>, the timer is cleared, and the failed query is the last one.
\<close>

lemma status_query_fails:
  assumes "\<And>i. i < k \<Longrightarrow> \<exists>v. q i = Reply v \<and> \<not> finalized v" and "int k < mx"
    and "q k = QueryFails" and "k < n"
  shows "status q mx intv n =
           \<lparr>start = 1 + int k, resolved = Some ''Error checking status'', ticking = False,
            queries = Suc k\<rparr>"
proof -
  have "status q mx intv k = \<lparr>start = 1 + int k, resolved = None, ticking = True, queries = k\<rparr>"
    using assms(1,2) by (intro status_pending) auto
  then have at: "status q mx intv (Suc k) =
           \<lparr>start = 1 + int k, resolved = Some ''Error checking status'', ticking = False,
            queries = Suc k\<rparr>"
    using assms(3) unfolding status_def ticks_Suc_end
    by (simp add: status_tick_def resolve_def clearInterval_def)
  then have "\<not> ticking (ticks (status_tick q mx intv) (Suc k) poll_start)"
    by (simp add: status_def)
  from ticks_settled [OF this, of n] assms(4) at show ?thesis
    by (simp add: status_def)
qed

text \<open>
  Claim C3. The poller of \<open>build.js\<close> does not stop when a query fails. When every
  query fails, after \<open>n\<close> periods it has sent \<open>n\<close> queries, nothing is resolved and the
  timer is still set, whatever \<open>n\<close> is: the failure is not surfaced and the polling goes on.
\<close>

theorem status_js_polls_on_after_failure:
  "status_js (\<lambda>i. QueryFails) mx intv n =
     \<lparr>start = 1, resolved = None, ticking = True, queries = n\<rparr>"
proof (induction n)
  case 0
  show ?case by (simp add: status_js_def poll_start_def)
next
  case (Suc n)
  then show ?case
    unfolding status_js_def ticks_Suc_end by (simp add: status_tick_js_def)
qed

section \<open>Reading a number back from its text\<close>

lemma of_char_digit_char:
  assumes "d < 10"
  shows "of_char (digit_char d) = 48 + d"
proof -
  from assms have "d \<in> {0, 1, 2, 3, 4, 5, 6, 7, 8, 9}" by auto
  then show ?thesis by (auto simp: digit_char_def)
qed

lemma digit_of_digit_char: "d < 10 \<Longrightarrow> digit_of (digit_char d) = Some d"
  by (simp add: digit_of_def of_char_digit_char)

lemma is_digit_digit_char: "d < 10 \<Longrightarrow> is_digit 10 (digit_char d)"
  by (simp add: is_digit_def digit_of_digit_char)

lemma digit_value_digit_char: "d < 10 \<Longrightarrow> digit_value (digit_char d) = int d"
  by (simp add: digit_value_def digit_of_digit_char)

lemma digit_char_plain:
  assumes "d < 10"
  shows "\<not> is_white_space (digit_char d)" and "digit_char d \<noteq> CHR ''-''"
    and "digit_char d \<noteq> CHR ''+''" and "digit_char d \<noteq> CHR ''x''" and "digit_char d \<noteq> CHR ''X''"
proof -
  have k: "of_char (digit_char d) = 48 + d" using assms by (rule of_char_digit_char)
  show "\<not> is_white_space (digit_char d)" using assms by (simp add: is_white_space_def k)
  have "of_char (digit_char d) \<noteq> (of_char CHR ''-'' :: nat)" using assms by (simp add: k)
  then show "digit_char d \<noteq> CHR ''-''" by auto
  have "of_char (digit_char d) \<noteq> (of_char CHR ''+'' :: nat)" using assms by (simp add: k)
  then show "digit_char d \<noteq> CHR ''+''" by auto
  have "of_char (digit_char d) \<noteq> (of_char CHR ''x'' :: nat)" using assms by (simp add: k)
  then show "digit_char d \<noteq> CHR ''x''" by auto
  have "of_char (digit_char d) \<noteq> (of_char CHR ''X'' :: nat)" using assms by (simp add: k)
  then show "digit_char d \<noteq> CHR ''X''" by auto
qed

lemma decimal_digits: "c \<in> set (decimal n) \<Longrightarrow> \<exists>d<10. c = digit_char d"
proof (induction n rule: decimal.induct)
  case (1 n)
  show ?case
  proof (cases "n < 10")
    case True
    with "1.prems" show ?thesis by (auto simp: decimal.simps [of n])
  next
    case False
    with "1.prems" have "c \<in> set (decimal (n div 10)) \<or> c = digit_char (n mod 10)"
      by (auto simp: decimal.simps [of n])
    then show ?thesis
    proof
      assume "c \<in> set (decimal (n div 10))"
      with False "1.IH" show ?thesis by simp
    next
      assume "c = digit_char (n mod 10)"
      moreover have "n mod 10 < 10" by simp
      ultimately show ?thesis by blast
    qed
  qed
qed

lemma decimal_not_empty: "decimal n \<noteq> []"
  by (subst decimal.simps) simp

lemma takeWhile_decimal: "takeWhile (is_digit 10) (decimal n) = decimal n"
proof -
  have "\<forall>c \<in> set (decimal n). is_digit 10 c"
    using decimal_digits is_digit_digit_char by blast
  then show ?thesis by (simp add: takeWhile_eq_all_conv)
qed

lemma digits_value_snoc: "digits_value R (z @ [c]) = int R * digits_value R z + digit_value c"
  by (simp add: digits_value_def)

lemma digits_value_decimal: "digits_value 10 (decimal n) = int n"
proof (induction n rule: decimal.induct)
  case (1 n)
  show ?case
  proof (cases "n < 10")
    case True
    then show ?thesis
      by (simp add: decimal.simps [of n] digits_value_def digit_value_digit_char)
  next
    case False
    with "1.IH" have "digits_value 10 (decimal (n div 10)) = int (n div 10)" by simp
    moreover have "int n = 10 * int (n div 10) + int (n mod 10)"
      by (metis mult_div_mod_eq of_nat_add of_nat_mult of_nat_numeral)
    ultimately show ?thesis using False
      by (simp add: decimal.simps [of n] digits_value_snoc digit_value_digit_char)
  qed
qed

lemma decimal_head: "\<exists>d r. d < 10 \<and> decimal n = digit_char d # r"
proof -
  obtain c r where cr: "decimal n = c # r"
    using decimal_not_empty [of n] by (cases "decimal n") auto
  then have "c \<in> set (decimal n)" by simp
  with decimal_digits cr show ?thesis by blast
qed

lemma dropWhile_decimal: "dropWhile is_white_space (decimal n) = decimal n"
  using decimal_head [of n] digit_char_plain(1) by auto

lemma strip_sign_decimal: "strip_sign (decimal n) = (1, decimal n)"
  using decimal_head [of n] digit_char_plain(2,3) by (auto simp: strip_sign_def)

lemma strip_prefix_decimal: "strip_prefix radix (decimal n) = (or_default 10 radix, decimal n)"
proof (cases radix)
  case (Some R)
  then show ?thesis by (simp add: strip_prefix_def or_default_def)
next
  case None
  show ?thesis
  proof (cases "decimal n")
    case Nil
    then show ?thesis using None by (simp add: strip_prefix_def or_default_def)
  next
    case (Cons a r)
    show ?thesis
    proof (cases r)
      case Nil
      then show ?thesis using None Cons by (simp add: strip_prefix_def or_default_def)
    next
      case (Cons b r')
      with \<open>decimal n = a # r\<close> have "b \<in> set (decimal n)" by simp
      then obtain d where "d < 10" "b = digit_char d" using decimal_digits by blast
      then have "b \<noteq> CHR ''x''" "b \<noteq> CHR ''X''" using digit_char_plain(4,5) by auto
      then show ?thesis
        using None Cons \<open>decimal n = a # r\<close> by (simp add: strip_prefix_def or_default_def)
    qed
  qed
qed

lemma parseInt_decimal:
  assumes "radix = None \<or> radix = Some 10"
  shows "parseInt (decimal n) radix = Number (int n)"
proof -
  have "or_default 10 radix = 10" using assms by (auto simp: or_default_def)
  then show ?thesis
    by (simp add: parseInt_def dropWhile_decimal strip_sign_decimal strip_prefix_decimal
        takeWhile_decimal decimal_not_empty digits_value_decimal)
qed

lemma parseInt_ToString:
  assumes "radix = None \<or> radix = Some 10"
  shows "parseInt (ToString i) radix = Number i"
proof (cases "i < 0")
  case False
  then show ?thesis using parseInt_decimal [OF assms, of "nat i"] by (simp add: ToString_def)
next
  case True
  have "or_default 10 radix = 10" using assms by (auto simp: or_default_def)
  moreover have "\<not> is_white_space CHR ''-''" by (simp add: is_white_space_def)
  ultimately show ?thesis using True
    by (simp add: ToString_def parseInt_def strip_sign_def strip_prefix_decimal
        takeWhile_decimal decimal_not_empty digits_value_decimal)
qed

lemma parseInt_undefined:
  assumes "radix = None \<or> radix = Some 10"
  shows "parseInt (text_of_property None) radix = NaN"
  using assms
  by (auto simp: text_of_property_def parseInt_def is_white_space_def strip_sign_def
      strip_prefix_def is_digit_def digit_of_def)

section \<open>The fee estimator\<close>



lemma FeeEstimate_parsed:
  assumes "getPriorityFeeEstimate e (cluster @ ''/'') (VersionedTransaction payer blockhash ixs tables)
             prio = Result p"
    and "parseInt (text_of_property p) (Some 10) = Number n"
  shows "fst (FeeEstimate e cluster payer prio ixs blockhash tables) = Inr (Number (max n 10000))"
  using assms by (simp add: FeeEstimate_def)

lemma FeeEstimate_js_parsed:
  assumes "getPriorityFeeEstimate e cluster (VersionedTransaction payer blockhash ixs tables)
             prio = Result p"
    and "parseInt (text_of_property p) None = Number n"
  shows "fst (FeeEstimate_js e cluster payer prio ixs blockhash tables) = Inr (Number (max n 10000))"
  using assms by (simp add: FeeEstimate_js_def)

lemma Math_max_Number: "Math_max a (Number b) = Number v \<Longrightarrow> \<exists>n. a = Number n \<and> v = max n b"
  by (cases a) auto

lemma FeeEstimate_no_default:
  assumes "fst (FeeEstimate e cluster payer prio ixs blockhash tables) = Inr (Number v)"
  shows "\<exists>p n. getPriorityFeeEstimate e (cluster @ ''/'') (VersionedTransaction payer blockhash ixs tables) prio = Result p
            \<and> parseInt (text_of_property p) (Some 10) = Number n \<and> v = max n 10000"
proof (cases "getPriorityFeeEstimate e (cluster @ ''/'') (VersionedTransaction payer blockhash ixs tables) prio")
  case (Result p)
  with assms have "Math_max (parseInt (text_of_property p) (Some 10)) (Number 10000) = Number v"
    by (simp add: FeeEstimate_def)
  with Result show ?thesis using Math_max_Number by blast
qed (use assms in \<open>simp_all add: FeeEstimate_def\<close>)

lemma FeeEstimate_js_no_default:
  assumes "fst (FeeEstimate_js e cluster payer prio ixs blockhash tables) = Inr (Number v)"
  shows "\<exists>p n. getPriorityFeeEstimate e cluster (VersionedTransaction payer blockhash ixs tables) prio = Result p
            \<and> parseInt (text_of_property p) None = Number n \<and> v = max n 10000"
proof (cases "getPriorityFeeEstimate e cluster (VersionedTransaction payer blockhash ixs tables) prio")
  case (Result p)
  with assms have "Math_max (parseInt (text_of_property p) None) (Number 10000) = Number v"
    by (simp add: FeeEstimate_js_def)
  with Result show ?thesis using Math_max_Number by blast
qed (use assms in \<open>simp_all add: FeeEstimate_js_def\<close>)

lemma FeeEstimate_failures:
  assumes "getPriorityFeeEstimate e (cluster @ ''/'') (VersionedTransaction payer blockhash ixs tables)
             prio \<in> {FetchRejects, BodyNotJson, NoResult}"
  shows "fst (FeeEstimate e cluster payer prio ixs blockhash tables) = Inl (Error ''Failed to estimate fee'')"
  using assms by (auto simp: FeeEstimate_def)

lemma FeeEstimate_js_failures:
  assumes "getPriorityFeeEstimate e cluster (VersionedTransaction payer blockhash ixs tables)
             prio \<in> {FetchRejects, BodyNotJson, NoResult}"
  shows "\<exists>x. fst (FeeEstimate_js e cluster payer prio ixs blockhash tables) = Inl x"
  using assms by (auto simp: FeeEstimate_js_def)




lemma parseInt_na: "radix = None \<or> radix = Some 10 \<Longrightarrow> parseInt ''n/a'' radix = NaN"
  by (auto simp: parseInt_def is_white_space_def strip_sign_def strip_prefix_def is_digit_def
      digit_of_def)

text \<open>
  Claim C6. An answer whose \<open>priorityFeeEstimate\<close> is not the text of a number, or is
  missing, is not an error for \<open>FeeEstimate\<close>: it returns \<open>NaN\<close>, in \<open>build.ts\<close>
  and in \<open>build.js\<close>. The failures that do surface are the ones that throw
  (\<open>FeeEstimate_failures\<close>), and a number that comes back is never made up
  (\<open>FeeEstimate_no_default\<close>).
\<close>

theorem fee_estimate_returns_NaN:
  "fst (FeeEstimate (demo_env sim_ok (Result (Some ''n/a''))) ''rpc'' ''payer'' ''Medium''
          [Instruction 7] ''cp'' []) = Inr NaN
   \<and> fst (FeeEstimate (demo_env sim_ok (Result None)) ''rpc'' ''payer'' ''Medium''
          [Instruction 7] ''cp'' []) = Inr NaN
   \<and> fst (FeeEstimate_js (demo_env sim_ok (Result (Some ''n/a''))) ''rpc'' ''payer'' ''Medium''
          [Instruction 7] ''cp'' []) = Inr NaN
   \<and> fst (FeeEstimate_js (demo_env sim_ok (Result None)) ''rpc'' ''payer'' ''Medium''
          [Instruction 7] ''cp'' []) = Inr NaN"
  by (simp add: FeeEstimate_def FeeEstimate_js_def demo_env_def parseInt_undefined
      parseInt_na text_of_property_def [of "Some ''n/a''"])

section \<open>The assembler\<close>

lemma compiled_sign: "compiled (sign sg (VersionedTransaction p bh fin tb)) = fin"
  by (cases sg) (simp_all add: sign_def VersionedTransaction_def)


lemma tx_output_js_carries:
  "succeeded (tx_output_js e p bh tb sg ser enc fin)
   \<and> carries e (tx_output_js e p bh tb sg ser enc fin) (sign sg (VersionedTransaction p bh fin tb))"
  by (cases ser; cases enc) (auto simp: tx_output_js_def succeeded_def carries_def Let_def)

lemma tx_compute_cases:
  "tx_compute e c p tol bh tb ixs = (s, cs) \<Longrightarrow>
     (\<exists>x. s = Throw x \<and> fst (ComputeLimit e c p ixs tol bh tb) = Inl x)
   \<or> (\<exists>m ls. s = Return (Failure m (Some ls))
         \<and> fst (ComputeLimit e c p ixs tol bh tb) = Inr (SimulationError m (Some ls)))
   \<or> (\<exists>u. s = Continue (SetComputeUnitLimit u # ixs)
         \<and> fst (ComputeLimit e c p ixs tol bh tb) = Inr u)"
  by (auto simp: tx_compute_def split: prod.splits sum.splits compute_limit.splits option.splits)

lemma tx_fees_cases:
  "tx_fees e c p prio bh tb ixs = (s, cs) \<Longrightarrow>
     (\<exists>x. s = Throw x \<and> fst (FeeEstimate e c p prio ixs bh tb) = Inl x)
   \<or> (\<exists>f. s = Continue (SetComputeUnitPrice f # ixs)
         \<and> fst (FeeEstimate e c p prio ixs bh tb) = Inr f)"
  by (auto simp: tx_fees_def split: prod.splits sum.splits)


lemma tx_prepare_Return:
  assumes "tx_prepare e options = (Return r, cs)"
  shows "\<not> succeeded r"
proof (cases "instructions options")
  case None
  with assms show ?thesis by (auto simp: tx_prepare_def succeeded_def)
next
  case (Some ixs)
  show ?thesis
  proof (cases "getLatestBlockhash e (rpc options)")
    case (Inl x)
    with assms Some show ?thesis
      by (auto simp: tx_prepare_def succeeded_def Let_def split: if_splits)
  next
    case (Inr bh')
    show ?thesis
      using assms Some Inr
      unfolding tx_prepare_def Let_def
      by (auto simp: succeeded_def split: if_splits prod.splits step.splits
          dest!: tx_compute_cases tx_fees_cases)
  qed
qed

lemma tx_cases:
  obtains (threw) x cs where "tx_prepare e options = (Throw x, cs)"
      and "tx e options = \<lparr>returned = Inl x, options_after = options, calls = cs\<rparr>"
  | (returned_early) r cs where "tx_prepare e options = (Return r, cs)"
      and "tx e options = \<lparr>returned = Inr r, options_after = options, calls = cs\<rparr>"
  | (built) bh fin cs where "tx_prepare e options = (Continue (bh, fin), cs)"
      and "tx e options =
             \<lparr>returned = tx_output e (account options) bh (or_default [] (table options))
                           (signers options) (or_default False (serialize options))
                           (or_default False (encode options)) fin,
              options_after = options, calls = cs\<rparr>"
proof (cases "tx_prepare e options")
  case (Pair s cs)
  show ?thesis
  proof (cases s)
    case (Throw x)
    with Pair show ?thesis by (intro threw [of x cs]) (simp_all add: tx_def)
  next
    case (Return r)
    with Pair show ?thesis by (intro returned_early [of r cs]) (simp_all add: tx_def)
  next
    case (Continue a)
    obtain bh fin where "a = (bh, fin)" by (cases a)
    with Pair Continue show ?thesis by (intro built [of bh fin cs]) (simp_all add: tx_def)
  qed
qed


lemma tx_prepare_js_Continue:
  assumes "tx_prepare_js e data = (Continue (bh, fin), arr, cs)"
  shows "\<exists>ixs mid.
           instructions data = Some ixs
         \<and> getLatestBlockhash e (rpc data) = Inr bh
         \<and> arr = Some fin
         \<and> (if or_default True (compute data)
             then \<exists>u. fst (ComputeLimit_js e (rpc data) (account data) ixs
                             (or_default (11 / 10) (tolerance data)) bh
                             (or_default [] (table data))) = Inr u
                      \<and> mid = SetComputeUnitLimit u # ixs
             else mid = ixs)
         \<and> (if or_default True (fees data)
             then \<exists>f. fst (FeeEstimate_js e (rpc data) (account data) (priority_js (or_default ''Medium'' (priority data))) mid bh
                             (or_default [] (table data))) = Inr f
                      \<and> fin = SetComputeUnitPrice f # mid
             else fin = mid)"
proof (cases "instructions data")
  case None
  with assms show ?thesis by (simp add: tx_prepare_js_def Let_def split: if_splits)
next
  case (Some ixs)
  show ?thesis
  proof (cases "getLatestBlockhash e (rpc data)")
    case (Inl x)
    with assms Some show ?thesis by (simp add: tx_prepare_js_def Let_def split: if_splits)
  next
    case (Inr bh')
    show ?thesis
      using assms Some Inr
      unfolding tx_prepare_js_def Let_def priority_js_def
      by (auto split: if_splits prod.splits step.splits sum.splits compute_limit.splits
          option.splits)
  qed
qed

lemma tx_prepare_js_Return:
  assumes "tx_prepare_js e data = (Return r, arr, cs)"
  shows "\<not> succeeded r"
proof (cases "instructions data")
  case None
  with assms show ?thesis by (auto simp: tx_prepare_js_def succeeded_def Let_def split: if_splits)
next
  case (Some ixs)
  show ?thesis
  proof (cases "getLatestBlockhash e (rpc data)")
    case (Inl x)
    with assms Some show ?thesis
      by (auto simp: tx_prepare_js_def succeeded_def Let_def split: if_splits)
  next
    case (Inr bh')
    show ?thesis
      using assms Some Inr
      unfolding tx_prepare_js_def Let_def
      by (auto simp: succeeded_def split: if_splits prod.splits step.splits sum.splits
          compute_limit.splits option.splits)
  qed
qed

lemma tx_prepare_js_array:
  assumes "tx_prepare_js e data = (s, arr, cs)" and "instructions data = Some ixs"
  shows "\<exists>ds. arr = Some (ds @ ixs)"
proof -
  have "arr = Some ixs \<or> (\<exists>a. arr = Some (a # ixs)) \<or> (\<exists>a b. arr = Some (a # b # ixs))"
  proof (cases "getLatestBlockhash e (rpc data)")
    case (Inl x)
    with assms show ?thesis
      by (auto simp: tx_prepare_js_def Let_def split: if_splits)
  next
    case (Inr bh')
    with assms show ?thesis
      unfolding tx_prepare_js_def Let_def
      by (auto split: if_splits prod.splits step.splits sum.splits compute_limit.splits
          option.splits)
  qed
  then show ?thesis
  proof (elim disjE exE)
    assume "arr = Some ixs"
    then have "arr = Some ([] @ ixs)" by simp
    then show ?thesis by blast
  next
    fix a assume "arr = Some (a # ixs)"
    then have "arr = Some ([a] @ ixs)" by simp
    then show ?thesis by blast
  next
    fix a b assume "arr = Some (a # b # ixs)"
    then have "arr = Some ([a, b] @ ixs)" by simp
    then show ?thesis by blast
  qed
qed

lemma tx_js_cases:
  obtains (threw) x arr cs where "tx_prepare_js e data = (Throw x, arr, cs)"
      and "tx_js e data =
             \<lparr>returned = Inl x, options_after = data\<lparr>instructions := arr\<rparr>, calls = cs\<rparr>"
  | (returned_early) r arr cs where "tx_prepare_js e data = (Return r, arr, cs)"
      and "tx_js e data =
             \<lparr>returned = Inr r, options_after = data\<lparr>instructions := arr\<rparr>, calls = cs\<rparr>"
  | (built) bh fin arr cs where "tx_prepare_js e data = (Continue (bh, fin), arr, cs)"
      and "tx_js e data =
             \<lparr>returned = Inr (tx_output_js e (account data) bh (or_default [] (table data))
                                (signers data) (or_default False (serialize data))
                                (or_default False (encode data)) fin),
              options_after = data\<lparr>instructions := arr\<rparr>, calls = cs\<rparr>"
proof (cases "tx_prepare_js e data")
  case (fields s arr cs)
  show ?thesis
  proof (cases s)
    case (Throw x)
    with fields show ?thesis by (intro threw [of x arr cs]) (simp_all add: tx_js_def)
  next
    case (Return r)
    with fields show ?thesis by (intro returned_early [of r arr cs]) (simp_all add: tx_js_def)
  next
    case (Continue a)
    obtain bh fin where "a = (bh, fin)" by (cases a)
    with fields Continue show ?thesis by (intro built [of bh fin arr cs]) (simp_all add: tx_js_def)
  qed
qed

lemma tx_js_succeeded:
  assumes "returned (tx_js e data) = Inr r" and "succeeded r"
  obtains bh fin cs where "tx_prepare_js e data = (Continue (bh, fin), Some fin, cs)"
    and "carries e r (sign (signers data)
            (VersionedTransaction (account data) bh fin (or_default [] (table data))))"
    and "instructions (options_after (tx_js e data)) = Some fin"
proof (cases rule: tx_js_cases [of e data])
  case (threw x arr cs)
  with assms show ?thesis by simp
next
  case (returned_early r' arr cs)
  with assms tx_prepare_js_Return [of e data r' arr cs] show ?thesis by simp
next
  case (built bh fin arr cs)
  from tx_prepare_js_Continue [OF built(1)] have arr: "arr = Some fin" by blast
  from built assms have "r = tx_output_js e (account data) bh (or_default [] (table data))
                                (signers data) (or_default False (serialize data))
                                (or_default False (encode data)) fin" by simp
  with tx_output_js_carries [of e "account data" bh "or_default [] (table data)" "signers data"
      "or_default False (serialize data)" "or_default False (encode data)" fin]
  have "carries e r (sign (signers data)
            (VersionedTransaction (account data) bh fin (or_default [] (table data))))" by simp
  moreover have "instructions (options_after (tx_js e data)) = Some fin"
    using built(2) arr by simp
  ultimately show ?thesis using built(1) arr that by blast
qed



subsection \<open>Runs on the example inputs\<close>

lemmas run_defs =
  tx_def tx_prepare_def tx_compute_def tx_fees_def tx_output_def ComputeLimit_def FeeEstimate_def
  tx_js_def tx_prepare_js_def tx_output_js_def ComputeLimit_js_def FeeEstimate_js_def
  priority_js_def or_default_def Let_def sign_def text_of_property_def
  demo_env_def demo_options_def sim_ok_def sim_failed_def sim_failed_without_logs_def

lemma parseInt_5000: "parseInt ''5000'' radix = Number 5000" if "radix = None \<or> radix = Some 10"
proof -
  have "ToString 5000 = ''5000''" by (simp add: ToString_def decimal.simps digit_char_def)
  with parseInt_ToString [OF that, of 5000] show ?thesis by simp
qed

lemma ceil_5500: "Math_ceil_mul 5000 (11 / 10) = 5500"
  by (simp add: Math_ceil_mul_def)


lemma demo_run_js:
  "tx_js (demo_env sim_ok (Result (Some ''5000''))) demo_options =
     \<lparr>returned =
        Inr (Built ''success''
               (Object (VersionedTransaction ''payer'' ''cp''
                  [SetComputeUnitPrice (Number 10000), SetComputeUnitLimit (Units 5500),
                   Instruction 7] []))),
      options_after =
        demo_options\<lparr>instructions :=
          Some [SetComputeUnitPrice (Number 10000), SetComputeUnitLimit (Units 5500),
                Instruction 7]\<rparr>,
      calls =
        [LatestBlockhashCall ''rpc'',
         SimulateCall ''rpc'' (VersionedTransaction ''payer'' ''cp''
            [SetComputeUnitLimit (Units 1400000), Instruction 7] []),
         FeeEstimateCall ''rpc'' (VersionedTransaction ''payer'' ''cp''
            [SetComputeUnitLimit (Units 5500), Instruction 7] []) ''Medium'']\<rparr>"
  by (simp add: run_defs parseInt_5000 ceil_5500)

subsection \<open>A failed simulation\<close>

text \<open>
  When the failed simulation comes with log lines, \<open>tx\<close> returns them in a failure and
  makes no fee query.
\<close>

lemma tx_reports_simulation_logs:
  assumes "instructions options = Some ixs" and "rpc options \<noteq> []" and "account options \<noteq> []"
    and "validKey e (account options)" and "getLatestBlockhash e (rpc options) = Inr bh"
    and "compute options \<noteq> Some False"
    and "simulateTransaction e (rpc options)
           (VersionedTransaction (account options) bh (SetComputeUnitLimit (Units 1400000) # ixs)
              (or_default [] (table options))) = Inr sim"
    and "err sim \<noteq> None" and "logs sim = Some ls"
  shows "tx e options =
           \<lparr>returned = Inr (Failure ''Error during simulation'' (Some ls)),
            options_after = options,
            calls = [LatestBlockhashCall (rpc options),
                     SimulateCall (rpc options)
                       (VersionedTransaction (account options) bh
                          (SetComputeUnitLimit (Units 1400000) # ixs)
                          (or_default [] (table options)))]\<rparr>"
proof -
  have "or_default True (compute options)"
    using assms(6) by (auto simp: or_default_def split: option.splits)
  with assms show ?thesis
    by (simp add: tx_def tx_prepare_def tx_compute_def ComputeLimit_def Let_def)
qed

lemma tx_js_reports_simulation_logs:
  assumes "instructions data = Some ixs" and "rpc data \<noteq> []" and "account data \<noteq> []"
    and "validKey e (account data)" and "getLatestBlockhash e (rpc data) = Inr bh"
    and "compute data \<noteq> Some False"
    and "simulateTransaction e (rpc data)
           (VersionedTransaction (account data) bh (SetComputeUnitLimit (Units 1400000) # ixs)
              (or_default [] (table data))) = Inr sim"
    and "err sim \<noteq> None" and "logs sim = Some ls"
  shows "tx_js e data =
           \<lparr>returned = Inr (Failure ''error when simulating the transaction'' (Some ls)),
            options_after = data,
            calls = [LatestBlockhashCall (rpc data),
                     SimulateCall (rpc data)
                       (VersionedTransaction (account data) bh
                          (SetComputeUnitLimit (Units 1400000) # ixs)
                          (or_default [] (table data)))]\<rparr>"
proof -
  have "or_default True (compute data)"
    using assms(6) by (auto simp: or_default_def split: option.splits)
  moreover have "data\<lparr>instructions := Some ixs\<rparr> = data" using assms(1) by simp
  ultimately show ?thesis using assms
    by (simp add: tx_js_def tx_prepare_js_def ComputeLimit_js_def Let_def)
qed

text \<open>
  Claim C1. A simulation that reports an error without log lines (\<open>logs\<close> is \<open>null\<close>)
  is not reported: \<open>tx\<close> takes the error object for the unit count, puts it in the
  budget directive, queries the fee oracle and resolves to a built transaction. Both
  modules do so.
\<close>

theorem simulation_error_without_logs_goes_unreported:
  "tx (demo_env sim_failed_without_logs (Result (Some ''5000''))) demo_options =
     \<lparr>returned =
        Inr (Built ''Transaction built successfully''
               (Object (VersionedTransaction ''payer'' ''cp''
                  [SetComputeUnitPrice (Number 10000),
                   SetComputeUnitLimit (SimulationError ''Error during simulation'' None),
                   Instruction 7] []))),
      options_after = demo_options,
      calls =
        [LatestBlockhashCall ''rpc'',
         SimulateCall ''rpc'' (VersionedTransaction ''payer'' ''cp''
            [SetComputeUnitLimit (Units 1400000), Instruction 7] []),
         FeeEstimateCall ''rpc/'' (VersionedTransaction ''payer'' ''cp''
            [SetComputeUnitLimit (SimulationError ''Error during simulation'' None),
             Instruction 7] []) ''Medium'']\<rparr>
   \<and> tx_js (demo_env sim_failed_without_logs (Result (Some ''5000''))) demo_options =
     \<lparr>returned =
        Inr (Built ''success''
               (Object (VersionedTransaction ''payer'' ''cp''
                  [SetComputeUnitPrice (Number 10000),
                   SetComputeUnitLimit (SimulationError ''error during simulation'' None),
                   Instruction 7] []))),
      options_after =
        demo_options\<lparr>instructions :=
          Some [SetComputeUnitPrice (Number 10000),
                SetComputeUnitLimit (SimulationError ''error during simulation'' None),
                Instruction 7]\<rparr>,
      calls =
        [LatestBlockhashCall ''rpc'',
         SimulateCall ''rpc'' (VersionedTransaction ''payer'' ''cp''
            [SetComputeUnitLimit (Units 1400000), Instruction 7] []),
         FeeEstimateCall ''rpc'' (VersionedTransaction ''payer'' ''cp''
            [SetComputeUnitLimit (SimulationError ''error during simulation'' None),
             Instruction 7] []) ''Medium'']\<rparr>"
  by (simp add: run_defs parseInt_5000)

subsection \<open>Serialise and encode\<close>

lemma tx_prepare_ignores_output_options:
  "tx_prepare e (options\<lparr>serialize := a, encode := b\<rparr>) = tx_prepare e options"
  by (simp add: tx_prepare_def Let_def
      cong: option.case_cong sum.case_cong if_cong prod.case_cong step.case_cong)

lemma tx_prepare_js_ignores_output_options:
  "tx_prepare_js e (data\<lparr>serialize := a, encode := b\<rparr>) = tx_prepare_js e data"
  by (simp add: tx_prepare_js_def Let_def
      cong: option.case_cong sum.case_cong if_cong prod.case_cong step.case_cong
        compute_limit.case_cong)

lemma tx_both_output_options:
  assumes "returned (tx e (options\<lparr>serialize := Some False, encode := Some False\<rparr>)) =
             Inr (Built m (Object t))"
  shows "returned (tx e (options\<lparr>serialize := Some True, encode := Some True\<rparr>)) =
             Inr (Built ''Success'' (Text (base64 (serialized e t))))"
proof (cases "tx_prepare e options")
  case (Pair s cs)
  then show ?thesis
    using assms
    by (cases s)
      (auto simp: tx_def tx_prepare_ignores_output_options tx_output_def or_default_def Let_def
        succeeded_def dest!: tx_prepare_Return)
qed

lemma tx_js_both_output_options:
  assumes "returned (tx_js e (data\<lparr>serialize := Some False, encode := Some False\<rparr>)) =
             Inr (Built m (Object t))"
  shows "returned (tx_js e (data\<lparr>serialize := Some True, encode := Some True\<rparr>)) =
             Inr (Bare (Text (base64 (serialized e t))))"
proof (cases "tx_prepare_js e data")
  case (fields s arr cs)
  then show ?thesis
    using assms
    by (cases s)
      (auto simp: tx_js_def tx_prepare_js_ignores_output_options tx_output_js_def or_default_def
        Let_def succeeded_def dest!: tx_prepare_js_Return)
qed

lemma tx_js_encode_alone:
  "returned (tx_js e (data\<lparr>serialize := Some False, encode := Some True\<rparr>)) =
   returned (tx_js e (data\<lparr>serialize := Some False, encode := Some False\<rparr>))"
proof (cases "tx_prepare_js e data")
  case (fields s arr cs)
  then show ?thesis
    by (cases s)
      (auto simp: tx_js_def tx_prepare_js_ignores_output_options tx_output_js_def or_default_def
        Let_def)
qed

text \<open>
  Claim C4, as stated, fails: with \<open>encode\<close> set and \<open>serialize\<close> not set, \<open>tx\<close>
  of \<open>build.ts\<close> throws a \<open>TypeError\<close> and \<open>tx\<close> of \<open>build.js\<close> returns the
  transaction object, neither of which is what \<open>serialize\<close> and \<open>encode\<close> together give.
\<close>

theorem encode_without_serialize_counterexample:
  "returned (tx (demo_env sim_ok (Result (Some ''5000'')))
              (demo_options\<lparr>serialize := Some False, encode := Some True\<rparr>)) = Inl TypeError
   \<and> returned (tx (demo_env sim_ok (Result (Some ''5000'')))
              (demo_options\<lparr>serialize := Some True, encode := Some True\<rparr>)) =
       Inr (Built ''Success'' (Text ''AwUC''))
   \<and> returned (tx_js (demo_env sim_ok (Result (Some ''5000'')))
              (demo_options\<lparr>serialize := Some False, encode := Some True\<rparr>)) =
       Inr (Built ''success''
              (Object (VersionedTransaction ''payer'' ''cp''
                 [SetComputeUnitPrice (Number 10000), SetComputeUnitLimit (Units 5500),
                  Instruction 7] [])))
   \<and> returned (tx_js (demo_env sim_ok (Result (Some ''5000'')))
              (demo_options\<lparr>serialize := Some True, encode := Some True\<rparr>)) =
       Inr (Bare (Text ''AwUC''))"
  by (simp add: run_defs parseInt_5000 ceil_5500 VersionedTransaction_def demo_wire_def
      base64_def base64_char_def)

text \<open>
  Claim C4, amended. With \<open>serialize\<close> and \<open>encode\<close> both set, the result is the
  base64 text of the serialised bytes of the transaction that the same request builds with
  neither set. In \<open>build.js\<close>, \<open>encode\<close> without \<open>serialize\<close> changes nothing: the
  result is the one of a request with neither set.
\<close>

theorem encode_is_applied_to_serialized_bytes:
  "(returned (tx e (options\<lparr>serialize := Some False, encode := Some False\<rparr>)) =
      Inr (Built m (Object t)) \<longrightarrow>
    returned (tx e (options\<lparr>serialize := Some True, encode := Some True\<rparr>)) =
      Inr (Built ''Success'' (Text (base64 (serialized e t)))))
   \<and> (returned (tx_js e (options\<lparr>serialize := Some False, encode := Some False\<rparr>)) =
      Inr (Built m (Object t)) \<longrightarrow>
    returned (tx_js e (options\<lparr>serialize := Some True, encode := Some True\<rparr>)) =
      Inr (Bare (Text (base64 (serialized e t)))))
   \<and> returned (tx_js e (options\<lparr>serialize := Some False, encode := Some True\<rparr>)) =
     returned (tx_js e (options\<lparr>serialize := Some False, encode := Some False\<rparr>))"
  using tx_both_output_options [of e options m t] tx_js_both_output_options [of e options m t]
    tx_js_encode_alone [of e options]
  by blast

theorem encode_is_applied_to_serialized_bytes_witness:
  "returned (tx (demo_env sim_ok (Result (Some ''5000'')))
              (demo_options\<lparr>serialize := Some True, encode := Some True\<rparr>)) =
     Inr (Built ''Success''
            (Text (base64 (serialized (demo_env sim_ok (Result (Some ''5000'')))
               (VersionedTransaction ''payer'' ''cp''
                  [SetComputeUnitPrice (Number 10000), SetComputeUnitLimit (Units 5500),
                   Instruction 7] [])))))
   \<and> returned (tx_js (demo_env sim_ok (Result (Some ''5000'')))
              (demo_options\<lparr>serialize := Some True, encode := Some True\<rparr>)) =
     Inr (Bare
            (Text (base64 (serialized (demo_env sim_ok (Result (Some ''5000'')))
               (VersionedTransaction ''payer'' ''cp''
                  [SetComputeUnitPrice (Number 10000), SetComputeUnitLimit (Units 5500),
                   Instruction 7] [])))))"
proof -
  have "returned (tx (demo_env sim_ok (Result (Some ''5000'')))
              (demo_options\<lparr>serialize := Some False, encode := Some False\<rparr>)) =
     Inr (Built ''Transaction built successfully''
            (Object (VersionedTransaction ''payer'' ''cp''
               [SetComputeUnitPrice (Number 10000), SetComputeUnitLimit (Units 5500),
                Instruction 7] [])))"
    by (simp add: run_defs parseInt_5000 ceil_5500)
  moreover have "returned (tx_js (demo_env sim_ok (Result (Some ''5000'')))
              (demo_options\<lparr>serialize := Some False, encode := Some False\<rparr>)) =
     Inr (Built ''success''
            (Object (VersionedTransaction ''payer'' ''cp''
               [SetComputeUnitPrice (Number 10000), SetComputeUnitLimit (Units 5500),
                Instruction 7] [])))"
    by (simp add: run_defs parseInt_5000 ceil_5500)
  ultimately show ?thesis
    using encode_is_applied_to_serialized_bytes
      [of "demo_env sim_ok (Result (Some ''5000''))" demo_options
        "''Transaction built successfully''"
        "VersionedTransaction ''payer'' ''cp''
               [SetComputeUnitPrice (Number 10000), SetComputeUnitLimit (Units 5500),
                Instruction 7] []"]
      encode_is_applied_to_serialized_bytes
      [of "demo_env sim_ok (Result (Some ''5000''))" demo_options "''success''"
        "VersionedTransaction ''payer'' ''cp''
               [SetComputeUnitPrice (Number 10000), SetComputeUnitLimit (Units 5500),
                Instruction 7] []"]
    by simp
qed

subsection \<open>Calling twice\<close>

text \<open>\<open>tx\<close> of \<open>build.ts\<close> can be called again on the same options object.\<close>

lemma tx_repeatable: "tx e (options_after (tx e options)) = tx e options"
  by (cases rule: tx_cases [of e options]) simp_all

text \<open>
  Claim C5. \<open>tx\<close> of \<open>build.js\<close> called a second time on the same options object,
  with the same answers from the network, builds another payload: the first call left its
  two directives in the caller's array, and the second call puts two more in front of them.
\<close>

theorem tx_js_second_call_builds_another_payload:
  "returned (tx_js (demo_env sim_ok (Result (Some ''5000''))) demo_options) =
     Inr (Built ''success''
            (Object (VersionedTransaction ''payer'' ''cp''
               [SetComputeUnitPrice (Number 10000), SetComputeUnitLimit (Units 5500),
                Instruction 7] [])))
   \<and> returned (tx_js (demo_env sim_ok (Result (Some ''5000'')))
        (options_after (tx_js (demo_env sim_ok (Result (Some ''5000''))) demo_options))) =
     Inr (Built ''success''
            (Object (VersionedTransaction ''payer'' ''cp''
               [SetComputeUnitPrice (Number 10000), SetComputeUnitLimit (Units 5500),
                SetComputeUnitPrice (Number 10000), SetComputeUnitLimit (Units 5500),
                Instruction 7] [])))"
  by (simp add: run_defs parseInt_5000 ceil_5500)

subsection \<open>The order of the final instructions\<close>






subsection \<open>The caller's array\<close>

lemma tx_leaves_options: "options_after (tx e options) = options"
  by (cases rule: tx_cases [of e options]) simp_all

lemma tx_js_keeps_caller_instructions_last:
  assumes "instructions data = Some ixs"
  shows "\<exists>ds. instructions (options_after (tx_js e data)) = Some (ds @ ixs)"
proof (cases rule: tx_js_cases [of e data])
  case (threw x arr cs)
  with tx_prepare_js_array [OF threw(1) assms] show ?thesis by auto
next
  case (returned_early r arr cs)
  with tx_prepare_js_array [OF returned_early(1) assms] show ?thesis by auto
next
  case (built bh fin arr cs)
  with tx_prepare_js_array [OF built(1) assms] show ?thesis by auto
qed

text \<open>
  Claim C10. \<open>tx\<close> of \<open>build.ts\<close> leaves the caller's options object, and so the
  caller's instructions array, as it was, however the run ends. \<open>tx\<close> of \<open>build.js\<close>
  writes to the caller's array: after a run that succeeds the array holds the instructions
  of the built transaction, that is one directive for each enabled optimisation in front of
  what the array held before; after any run it holds what it held before with whatever was
  put in front.
\<close>

theorem caller_array_after_tx:
  "options_after (tx e options) = options
   \<and> (instructions options = Some ixs \<longrightarrow>
        (\<exists>ds. instructions (options_after (tx_js e options)) = Some (ds @ ixs)))
   \<and> (instructions options = Some ixs \<and> returned (tx_js e options) = Inr r \<and> succeeded r \<longrightarrow>
        (\<exists>t ds. carries e r t \<and> compiled t = ds @ ixs
            \<and> instructions (options_after (tx_js e options)) = Some (ds @ ixs)
            \<and> list_all is_directive ds
            \<and> length ds = (if compute options = Some False then 0 else 1)
                         + (if fees options = Some False then 0 else 1)))"
proof (intro conjI impI; (elim conjE)?)
  show "options_after (tx e options) = options" by (rule tx_leaves_options)
next
  assume "instructions options = Some ixs"
  then show "\<exists>ds. instructions (options_after (tx_js e options)) = Some (ds @ ixs)"
    by (rule tx_js_keeps_caller_instructions_last)
next
  assume ixs: "instructions options = Some ixs"
    and "returned (tx_js e options) = Inr r" and "succeeded r"
  then obtain bh fin cs where p: "tx_prepare_js e options = (Continue (bh, fin), Some fin, cs)"
    and c: "carries e r (sign (signers options)
            (VersionedTransaction (account options) bh fin (or_default [] (table options))))"
    and a: "instructions (options_after (tx_js e options)) = Some fin"
    by (blast elim: tx_js_succeeded)
  have "\<exists>ds. fin = ds @ ixs \<and> list_all is_directive ds
            \<and> length ds = (if compute options = Some False then 0 else 1)
                         + (if fees options = Some False then 0 else 1)"
  proof -
    from tx_prepare_js_Continue [OF p] ixs
    have "\<exists>mid. (if or_default True (compute options)
                 then \<exists>u. mid = SetComputeUnitLimit u # ixs else mid = ixs)
              \<and> (if or_default True (fees options)
                 then \<exists>f. fin = SetComputeUnitPrice f # mid else fin = mid)"
      by (cases "or_default True (compute options)"; cases "or_default True (fees options)")
        auto
    then obtain mid where
      m: "if or_default True (compute options)
          then \<exists>u. mid = SetComputeUnitLimit u # ixs else mid = ixs"
      and f: "if or_default True (fees options)
          then \<exists>f. fin = SetComputeUnitPrice f # mid else fin = mid"
      by blast
    have c_on: "or_default True (compute options) \<longleftrightarrow> compute options \<noteq> Some False"
      and f_on: "or_default True (fees options) \<longleftrightarrow> fees options \<noteq> Some False"
      by (auto simp: or_default_def split: option.splits)
    from m c_on obtain d1 where d1: "mid = d1 @ ixs" "list_all is_directive d1"
      "length d1 = (if compute options = Some False then 0 else 1)"
      by (cases "compute options = Some False") (auto split: if_splits)
    from f f_on obtain d2 where d2: "fin = d2 @ mid" "list_all is_directive d2"
      "length d2 = (if fees options = Some False then 0 else 1)"
      by (cases "fees options = Some False") (auto split: if_splits)
    from d1 d2 have "fin = (d2 @ d1) @ ixs" "list_all is_directive (d2 @ d1)"
      "length (d2 @ d1) = (if compute options = Some False then 0 else 1)
                         + (if fees options = Some False then 0 else 1)"
      by simp_all
    then show ?thesis by blast
  qed
  with c a compiled_sign
  show "\<exists>t ds. carries e r t \<and> compiled t = ds @ ixs
            \<and> instructions (options_after (tx_js e options)) = Some (ds @ ixs)
            \<and> list_all is_directive ds
            \<and> length ds = (if compute options = Some False then 0 else 1)
                         + (if fees options = Some False then 0 else 1)"
    by metis
qed

theorem caller_array_after_tx_witness:
  "options_after (tx (demo_env sim_ok (Result (Some ''5000''))) demo_options) = demo_options
   \<and> (\<exists>t ds. carries (demo_env sim_ok (Result (Some ''5000'')))
              (Built ''success''
                 (Object (VersionedTransaction ''payer'' ''cp''
                    [SetComputeUnitPrice (Number 10000), SetComputeUnitLimit (Units 5500),
                     Instruction 7] []))) t
          \<and> compiled t = ds @ [Instruction 7]
          \<and> instructions (options_after
               (tx_js (demo_env sim_ok (Result (Some ''5000''))) demo_options)) =
              Some (ds @ [Instruction 7])
          \<and> list_all is_directive ds \<and> length ds = 2)"
  using caller_array_after_tx
    [of "demo_env sim_ok (Result (Some ''5000''))" demo_options "[Instruction 7]"
      "Built ''success''
                 (Object (VersionedTransaction ''payer'' ''cp''
                    [SetComputeUnitPrice (Number 10000), SetComputeUnitLimit (Units 5500),
                     Instruction 7] []))"]
  by (simp add: demo_run_js succeeded_def) (simp add: demo_options_def)

end
